theory Spec2Isabelle
  imports Complex_Main "HOL-Library.AList"
begin

section \<open>Python values and attribute dictionaries\<close>

text \<open>
  The model classes (User, Order, Summary, Instrument, Portfolio, Asset and the request
  payloads) are declared in \<^verbatim>\<open>app.models\<close>. The code reaches the attributes of
  Order and Summary by name (\<^verbatim>\<open>hasattr\<close>, \<^verbatim>\<open>setattr\<close>, \<^verbatim>\<open>getattr\<close>), so an entity
  of these tables is its attribute dictionary: an association list from attribute names
  to Python values, read at the first entry of a name. A datetime is a point on the
  integer time line; a float column is carried as the number it denotes (no function
  here computes with one).
\<close>

datatype pyval = PNone | PInt int | PStr string | PDate int | PFloat rat

type_synonym row = "(string \<times> pyval) list"

definition getattr :: "row \<Rightarrow> string \<Rightarrow> pyval option" where
  "getattr obj key = map_of obj key"



text \<open>Truth value of an optional argument: \<^verbatim>\<open>None\<close>, the empty string and the integer
  zero are falsy; every datetime is truthy.\<close>

definition truthy_str :: "string option \<Rightarrow> bool" where
  "truthy_str s = (case s of None \<Rightarrow> False | Some t \<Rightarrow> t \<noteq> [])"



section \<open>Models\<close>

record UserCreate =
  email :: string
  username :: string
  password :: string

record UserUpdate =
  username :: "string option"
  password :: "string option"




record User =
  id' :: int
  email :: string
  username :: string
  hashed_password :: string



section \<open>The database session\<close>

text \<open>
  The state is the content of the six tables, each in its storage order. A select
  returns the matching rows in that order and \<^verbatim>\<open>first()\<close> the first of them. The
  state holds rows only: constraints of the schema (foreign keys, uniqueness) are
  declarations of \<^verbatim>\<open>app.models\<close> and are not enforced here.
\<close>

record Session =
  users :: "User list"
  instruments :: "row list"
  orders :: "row list"
  summaries :: "row list"
  portfolios :: "row list"
  assets :: "row list"

datatype error =
    HTTPException int string
  | AttributeError string
  | UnboundLocalError string
  | UnmappedInstanceError
  | DataError



text \<open>\<^verbatim>\<open>session.commit()\<close> after an attribute of a loaded entity was assigned: the row
  with the entity's primary key takes the new attribute values.\<close>

definition commit_user :: "Session \<Rightarrow> User \<Rightarrow> User \<Rightarrow> Session" where
  "commit_user session old new =
     session\<lparr>users := map (\<lambda>u. if id' u = id' old then new else u) (users session)\<rparr>"


section \<open>crud.py: user operations\<close>


definition crud_get_user_by_email :: "Session \<Rightarrow> string \<Rightarrow> User option" where
  "crud_get_user_by_email session e = find (\<lambda>u. User.email u = e) (users session)"

definition crud_get_user_by_username :: "Session \<Rightarrow> string \<Rightarrow> User option" where
  "crud_get_user_by_username session n = find (\<lambda>u. User.username u = n) (users session)"

definition crud_get_user_by_id :: "Session \<Rightarrow> int \<Rightarrow> User option" where
  "crud_get_user_by_id session i = find (\<lambda>u. id' u = i) (users session)"

text \<open>Assigning an attribute of \<^verbatim>\<open>None\<close> raises AttributeError (the argument is the
  attribute's name); it does so before the commit.\<close>

definition crud_change_username ::
  "Session \<Rightarrow> string \<Rightarrow> string \<Rightarrow> (error + User) \<times> Session" where
  "crud_change_username session e new_username =
     (case crud_get_user_by_email session e of
        None \<Rightarrow> (Inl (AttributeError ''username''), session)
      | Some user \<Rightarrow>
          (let user1 = user\<lparr>User.username := new_username\<rparr>
           in (Inr user1, commit_user session user user1)))"

definition crud_change_password ::
  "(string \<Rightarrow> string) \<Rightarrow> Session \<Rightarrow> string \<Rightarrow> string \<Rightarrow> (error + User) \<times> Session" where
  "crud_change_password get_password_hash session e new_password =
     (case crud_get_user_by_email session e of
        None \<Rightarrow> (Inl (AttributeError ''hashed_password''), session)
      | Some user \<Rightarrow>
          (let user1 = user\<lparr>hashed_password := get_password_hash new_password\<rparr>
           in (Inr user1, commit_user session user user1)))"

text \<open>\<^verbatim>\<open>session.delete(entity)\<close> with its commit removes the row of the entity's
  primary key. No function of crud.py or users.py names the portfolio or the asset
  table, and the handler deletes the orders and the summary itself before the user row;
  cascades along relationships would be declarations of \<^verbatim>\<open>app.models\<close> and are not
  assumed.\<close>

definition crud_delete_user :: "Session \<Rightarrow> User \<Rightarrow> Session" where
  "crud_delete_user session user =
     session\<lparr>users := filter (\<lambda>u. id' u \<noteq> id' user) (users session)\<rparr>"

section \<open>crud.py: instrument operations\<close>

definition crud_get_instrument_by_symbol :: "Session \<Rightarrow> string \<Rightarrow> row option" where
  "crud_get_instrument_by_symbol session symbol =
     find (\<lambda>r. getattr r ''symbol'' = Some (PStr symbol)) (instruments session)"

definition crud_get_instrument_by_id :: "Session \<Rightarrow> int \<Rightarrow> row option" where
  "crud_get_instrument_by_id session i =
     find (\<lambda>r. getattr r ''id'' = Some (PInt i)) (instruments session)"

section \<open>crud.py: order operations\<close>

text \<open>A statement is the list of its where-clauses; a row is selected when every clause
  holds of it. A comparison with a missing or null column selects nothing.\<close>

definition col_eq :: "string \<Rightarrow> pyval \<Rightarrow> row \<Rightarrow> bool" where
  "col_eq key val r = (getattr r key = Some val)"





definition crud_get_order_by_id :: "Session \<Rightarrow> int \<Rightarrow> row option" where
  "crud_get_order_by_id session order_id =
     find (\<lambda>r. getattr r ''id'' = Some (PInt order_id)) (orders session)"


definition crud_delete_order :: "Session \<Rightarrow> row \<Rightarrow> Session" where
  "crud_delete_order session order =
     session\<lparr>orders := filter (\<lambda>r. getattr r ''id'' \<noteq> getattr order ''id'') (orders session)\<rparr>"

section \<open>crud.py: summary operations\<close>


definition crud_get_summary_by_id :: "Session \<Rightarrow> int \<Rightarrow> row option" where
  "crud_get_summary_by_id session summary_id =
     find (\<lambda>r. getattr r ''id'' = Some (PInt summary_id)) (summaries session)"

definition crud_get_summary_by_user_id :: "Session \<Rightarrow> int \<Rightarrow> row option" where
  "crud_get_summary_by_user_id session user_id =
     find (\<lambda>r. getattr r ''user_id'' = Some (PInt user_id)) (summaries session)"


text \<open>\<^verbatim>\<open>session.delete(None)\<close> raises UnmappedInstanceError; the handler passes what the
  lookup returned, so the argument is optional.\<close>

definition crud_delete_summary :: "Session \<Rightarrow> row option \<Rightarrow> error + Session" where
  "crud_delete_summary session summary =
     (case summary of
        None \<Rightarrow> Inl UnmappedInstanceError
      | Some s \<Rightarrow>
          Inr (session\<lparr>summaries :=
                 filter (\<lambda>r. getattr r ''id'' \<noteq> getattr s ''id'') (summaries session)\<rparr>))"

section \<open>api/routes/users.py: the handlers\<close>



definition get_user_by_id :: "Session \<Rightarrow> int \<Rightarrow> error + User" where
  "get_user_by_id session user_id =
     (case crud_get_user_by_id session user_id of
        None \<Rightarrow> Inl (HTTPException 400 ''No user exists with this id.'')
      | Some user \<Rightarrow> Inr user)"

text \<open>\<^verbatim>\<open>updated_user\<close> is bound by the first of the two calls that runs; \<^verbatim>\<open>user.email\<close>
  of an absent user raises AttributeError where the call's arguments are evaluated.\<close>

definition update_user ::
  "(string \<Rightarrow> string) \<Rightarrow> Session \<Rightarrow> int \<Rightarrow> UserUpdate \<Rightarrow> (error + User) \<times> Session" where
  "update_user get_password_hash session user_id data_in =
     (let user = crud_get_user_by_id session user_id in
      if \<not> truthy_str (UserUpdate.username data_in) \<and> \<not> truthy_str (UserUpdate.password data_in)
      then (Inl (HTTPException 400 ''No user details to update.''), session)
      else
        (case (if truthy_str (UserUpdate.username data_in)
               then (case user of
                       None \<Rightarrow> (Inl (AttributeError ''email''), session)
                     | Some u \<Rightarrow>
                         (case crud_change_username session (User.email u)
                                 (the (UserUpdate.username data_in)) of
                            (Inl err, session1) \<Rightarrow> (Inl err, session1)
                          | (Inr updated_user, session1) \<Rightarrow> (Inr (Some updated_user), session1)))
               else (Inr None, session)) of
           (Inl err, session1) \<Rightarrow> (Inl err, session1)
         | (Inr updated_user, session1) \<Rightarrow>
             if truthy_str (UserUpdate.password data_in)
             then (case user of
                     None \<Rightarrow> (Inl (AttributeError ''email''), session1)
                   | Some u \<Rightarrow>
                       crud_change_password get_password_hash session1 (User.email u)
                         (the (UserUpdate.password data_in)))
             else (case updated_user of
                     None \<Rightarrow> (Inl (UnboundLocalError ''updated_user''), session1)
                   | Some u1 \<Rightarrow> (Inr u1, session1))))"

text \<open>Modelled from the spec: the relationship \<^verbatim>\<open>User.orders\<close> is declared in
  \<^verbatim>\<open>app.models\<close>, which is not among the sources; an Order belongs to the User its
  \<^verbatim>\<open>user_id\<close> names.\<close>

definition user_orders :: "Session \<Rightarrow> User \<Rightarrow> row list" where
  "user_orders session user = filter (col_eq ''user_id'' (PInt (id' user))) (orders session)"

definition delete_user :: "Session \<Rightarrow> int \<Rightarrow> (error + User) \<times> Session" where
  "delete_user session user_id =
     (case crud_get_user_by_id session user_id of
        None \<Rightarrow> (Inl (HTTPException 400 ''Unable to find user with id.''), session)
      | Some user \<Rightarrow>
          (let session1 = foldl crud_delete_order session (user_orders session user);
               summary = crud_get_summary_by_user_id session1 user_id
           in (case crud_delete_summary session1 summary of
                 Inl err \<Rightarrow> (Inl err, session1)
               | Inr session2 \<Rightarrow> (Inr user, crud_delete_user session2 user))))"

section \<open>Sample data\<close>

text \<open>A stand-in for the password hash and a small database, on which the theorems
  below are instantiated: two users, each with a summary; three orders, two of them of
  user 1; one portfolio, of user 1, holding one asset.\<close>

definition example_hash :: "string \<Rightarrow> string" where
  "example_hash p = ''hashed-'' @ p"

definition alice :: User where
  "alice = \<lparr>id' = 1, email = ''a@x.com'', username = ''a'',
            hashed_password = ''hashed-p''\<rparr>"

definition bob :: User where
  "bob = \<lparr>id' = 2, email = ''b@x.com'', username = ''b'',
          hashed_password = ''hashed-q''\<rparr>"

definition order1 :: row where
  "order1 = [(''id'', PInt 1), (''user_id'', PInt 1), (''instrument_id'', PInt 1),
             (''type'', PStr ''BUY''), (''date'', PDate 10), (''volume'', PFloat 2),
             (''price'', PFloat 5)]"

definition order2 :: row where
  "order2 = [(''id'', PInt 2), (''user_id'', PInt 2), (''instrument_id'', PInt 1),
             (''type'', PStr ''BUY''), (''date'', PDate 11), (''volume'', PFloat 1),
             (''price'', PFloat 6)]"

definition order3 :: row where
  "order3 = [(''id'', PInt 3), (''user_id'', PInt 1), (''instrument_id'', PInt 2),
             (''type'', PStr ''SELL''), (''date'', PDate 20), (''volume'', PFloat 4),
             (''price'', PFloat 7)]"

definition asset1 :: row where
  "asset1 = [(''id'', PInt 1), (''portfolio_id'', PInt 1), (''instrument_id'', PInt 1),
             (''buy_date'', PStr ''04/07/2025''), (''buy_price'', PFloat 1),
             (''volume'', PFloat 1)]"


definition sample_session :: Session where
  "sample_session =
     \<lparr>users = [alice, bob],
      instruments = [[(''id'', PInt 1), (''symbol'', PStr ''ACME'')],
                     [(''id'', PInt 2), (''symbol'', PStr ''EMCA'')]],
      orders = [order1, order2, order3],
      summaries = [[(''id'', PInt 1), (''user_id'', PInt 1)],
                   [(''id'', PInt 2), (''user_id'', PInt 2)]],
      portfolios = [[(''id'', PInt 1), (''user_id'', PInt 1)]],
      assets = [asset1]\<rparr>"

section \<open>PUT /users/{id}: validation of the payload\<close>

text \<open>
  Claim C7. A \<^verbatim>\<open>PUT /users/{id}\<close> whose payload supplies neither a username nor a
  password (each absent, or the empty string) fails with the 400 error
  "No user details to update." and leaves the database, hence the stored user, as it was.
\<close>

theorem update_user_no_details:
  "\<not> truthy_str (UserUpdate.username d) \<Longrightarrow> \<not> truthy_str (UserUpdate.password d) \<Longrightarrow>
   update_user H s uid d = (Inl (HTTPException 400 ''No user details to update.''), s)"
  by (simp add: update_user_def)

theorem update_user_no_details_witness:
  "update_user example_hash sample_session 1 \<lparr>UserUpdate.username = None, password = None\<rparr>
     = (Inl (HTTPException 400 ''No user details to update.''), sample_session)
   \<and> crud_get_user_by_id sample_session 1 = Some alice"
  using update_user_no_details
    [of "\<lparr>UserUpdate.username = None, password = None\<rparr>" example_hash sample_session 1]
  by (simp add: truthy_str_def crud_get_user_by_id_def sample_session_def alice_def)

text \<open>
  Claim C9. The handler makes no existence check: when \<open>user_id\<close> matches no stored user
  and the payload supplies a username or a password, reading \<^verbatim>\<open>user.email\<close> of the
  absent user raises AttributeError, which nothing catches; no 400 response is built
  and nothing is written.
\<close>

theorem update_user_absent_raises:
  "crud_get_user_by_id s uid = None \<Longrightarrow>
   truthy_str (UserUpdate.username d) \<or> truthy_str (UserUpdate.password d) \<Longrightarrow>
   update_user H s uid d = (Inl (AttributeError ''email''), s)"
  by (auto simp: update_user_def)

theorem update_user_absent_raises_witness:
  "crud_get_user_by_id sample_session 7 = None
   \<and> update_user example_hash sample_session 7
        \<lparr>UserUpdate.username = Some ''c'', password = None\<rparr>
     = (Inl (AttributeError ''email''), sample_session)
   \<and> update_user example_hash sample_session 7
        \<lparr>UserUpdate.username = None, password = Some ''r''\<rparr>
     = (Inl (AttributeError ''email''), sample_session)"
proof -
  have a: "crud_get_user_by_id sample_session 7 = None"
    by (simp add: crud_get_user_by_id_def sample_session_def alice_def bob_def)
  show ?thesis
    using a
      update_user_absent_raises
        [OF a, of "\<lparr>UserUpdate.username = Some ''c'', password = None\<rparr>" example_hash]
      update_user_absent_raises
        [OF a, of "\<lparr>UserUpdate.username = None, password = Some ''r''\<rparr>" example_hash]
    by (simp add: truthy_str_def)
qed

section \<open>Auxiliary facts: lookups, fresh keys, commits\<close>














section \<open>PUT /users/{id}: both changes in one call\<close>



section \<open>POST /users\<close>






section \<open>Listings: counts and filters\<close>










section \<open>Absent rows in the CRUD layer\<close>

text \<open>
  Claim C3, as the code has it. Each lookup of crud.py (user by email, username or id,
  instrument by symbol or id, order by id, summary by id or by user id) returns \<open>None\<close>
  exactly when no stored row matches the identifier, and has no failing branch. The two
  operations that change a user found by email are outside this policy: for an email
  that matches no user \<^verbatim>\<open>change_username\<close> and \<^verbatim>\<open>change_password\<close> raise AttributeError.
\<close>

theorem lookups_return_None:
  "(crud_get_user_by_email s e = None) = (\<forall>u\<in>set (users s). User.email u \<noteq> e)
   \<and> (crud_get_user_by_username s n = None) = (\<forall>u\<in>set (users s). User.username u \<noteq> n)
   \<and> (crud_get_user_by_id s i = None) = (\<forall>u\<in>set (users s). id' u \<noteq> i)
   \<and> (crud_get_instrument_by_symbol s sy = None) =
       (\<forall>r\<in>set (instruments s). getattr r ''symbol'' \<noteq> Some (PStr sy))
   \<and> (crud_get_instrument_by_id s i = None) =
       (\<forall>r\<in>set (instruments s). getattr r ''id'' \<noteq> Some (PInt i))
   \<and> (crud_get_order_by_id s i = None) =
       (\<forall>r\<in>set (orders s). getattr r ''id'' \<noteq> Some (PInt i))
   \<and> (crud_get_summary_by_id s i = None) =
       (\<forall>r\<in>set (summaries s). getattr r ''id'' \<noteq> Some (PInt i))
   \<and> (crud_get_summary_by_user_id s i = None) =
       (\<forall>r\<in>set (summaries s). getattr r ''user_id'' \<noteq> Some (PInt i))"
  unfolding crud_get_user_by_email_def crud_get_user_by_username_def crud_get_user_by_id_def
    crud_get_instrument_by_symbol_def crud_get_instrument_by_id_def crud_get_order_by_id_def
    crud_get_summary_by_id_def crud_get_summary_by_user_id_def find_None_iff
  by blast

theorem lookups_return_None_witness:
  "crud_get_user_by_email sample_session ''z@x.com'' = None
   \<and> crud_get_user_by_username sample_session ''z'' = None
   \<and> crud_get_user_by_id sample_session 9 = None
   \<and> crud_get_instrument_by_symbol sample_session ''ZZZ'' = None
   \<and> crud_get_instrument_by_id sample_session 9 = None
   \<and> crud_get_order_by_id sample_session 9 = None
   \<and> crud_get_summary_by_id sample_session 9 = None
   \<and> crud_get_summary_by_user_id sample_session 9 = None
   \<and> crud_get_user_by_email sample_session ''a@x.com'' = Some alice"
  using lookups_return_None [of sample_session "''z@x.com''" "''z''" 9 "''ZZZ''"]
  by (simp add: sample_session_def alice_def bob_def order1_def order2_def order3_def
      getattr_def crud_get_user_by_email_def)

theorem change_username_raises_counterexample:
  "crud_get_user_by_email sample_session ''z@x.com'' = None
   \<and> crud_change_username sample_session ''z@x.com'' ''z'' =
       (Inl (AttributeError ''username''), sample_session)
   \<and> crud_change_password example_hash sample_session ''z@x.com'' ''pw'' =
       (Inl (AttributeError ''hashed_password''), sample_session)"
  by (simp add: crud_change_username_def crud_change_password_def crud_get_user_by_email_def
      sample_session_def alice_def bob_def)

section \<open>Partial updates\<close>











section \<open>DELETE /users/{id}\<close>



lemma foldl_delete_order_tables:
  "users (foldl crud_delete_order s os) = users s"
  "instruments (foldl crud_delete_order s os) = instruments s"
  "summaries (foldl crud_delete_order s os) = summaries s"
  "portfolios (foldl crud_delete_order s os) = portfolios s"
  "assets (foldl crud_delete_order s os) = assets s"
  by (induction os arbitrary: s) (simp_all add: crud_delete_order_def)



text \<open>When the user has no summary the lookup returns \<open>None\<close> and deleting it raises, after
  the orders were deleted and before the user row is.\<close>

lemma delete_user_without_summary:
  assumes "crud_get_user_by_id s uid = Some u"
    and "crud_get_summary_by_user_id s uid = None"
  shows "delete_user s uid =
           (Inl UnmappedInstanceError, foldl crud_delete_order s (user_orders s u))"
  using assms
  by (simp add: delete_user_def Let_def crud_get_summary_by_user_id_def
      foldl_delete_order_tables crud_delete_summary_def)




end
